theory Spec2Isabelle
  imports Complex_Main
begin

section \<open>JavaScript values\<close>

text \<open>
  The server of \<^verbatim>\<open>src/index.ts\<close> receives untyped argument values. A number is an
  IEEE double: the three special values are constructors of their own and a finite double
  is its exact rational value (the two zeros are the one rational 0: they compare equal,
  are both falsy and both print as 0). A string is a list of code units below 256.
\<close>

datatype jsnum = NaN | PosInf | NegInf | Finite rat

datatype jsval =
    JUndefined
  | JNull
  | JBool bool
  | JNumber jsnum
  | JString string
  | JArray "jsval list"
  | JObject "(string \<times> jsval) list"

text \<open>\<^verbatim>\<open>isNaN(value)\<close> on a number.\<close>

definition isNaN :: "jsnum \<Rightarrow> bool" where
  "isNaN n = (n = NaN)"

text \<open>\<^verbatim>\<open>a < b\<close> on numbers; every comparison with NaN is false.\<close>

fun num_less :: "jsnum \<Rightarrow> jsnum \<Rightarrow> bool" where
  "num_less NaN b = False"
| "num_less a NaN = False"
| "num_less PosInf b = False"
| "num_less NegInf b = (b \<noteq> NegInf)"
| "num_less (Finite x) PosInf = True"
| "num_less (Finite x) NegInf = False"
| "num_less (Finite x) (Finite y) = (x < y)"

text \<open>The truthiness test of \<^verbatim>\<open>if (v)\<close>.\<close>

fun truthy :: "jsval \<Rightarrow> bool" where
  "truthy JUndefined = False"
| "truthy JNull = False"
| "truthy (JBool b) = b"
| "truthy (JNumber n) = (n \<noteq> NaN \<and> n \<noteq> Finite 0)"
| "truthy (JString s) = (s \<noteq> [])"
| "truthy (JArray xs) = True"
| "truthy (JObject kvs) = True"

text \<open>
  \<^verbatim>\<open>String.prototype.trim\<close> removes white space and line terminators from both ends;
  below 256 these are TAB, LF, VT, FF, CR, SPACE and NBSP.
\<close>

definition is_space :: "char \<Rightarrow> bool" where
  "is_space c = (c \<in> set [CHR 0x09, CHR 0x0A, CHR 0x0B, CHR 0x0C, CHR 0x0D, CHR 0x20, CHR 0xA0])"

definition trim :: "string \<Rightarrow> string" where
  "trim s = rev (dropWhile is_space (rev (dropWhile is_space s)))"

subsection \<open>Rendering numbers\<close>

function string_of_nat :: "nat \<Rightarrow> string" where
  "string_of_nat n =
     (if n < 10 then [''0123456789'' ! n]
      else string_of_nat (n div 10) @ [''0123456789'' ! (n mod 10)])"
  by pat_completeness auto
termination
  by (relation "measure id") auto

declare string_of_nat.simps [simp del]

definition string_of_int :: "int \<Rightarrow> string" where
  "string_of_int i = (if i < 0 then CHR ''-'' # string_of_nat (nat (- i)) else string_of_nat (nat i))"

text \<open>
  \<^verbatim>\<open>Number.prototype.toString\<close> and the number case of a template literal. An integral
  value of magnitude at most 2^53 prints as its decimal digits. Every other finite value
  prints as the shortest decimal that reads back as the same double (padded with zeros
  for a large integer), which depends on the binary layout of the double: that rendering
  is the parameter \<open>sd\<close>.
\<close>

definition number_toString :: "(rat \<Rightarrow> string) \<Rightarrow> jsnum \<Rightarrow> string" where
  "number_toString sd n =
     (case n of
        NaN \<Rightarrow> ''NaN''
      | PosInf \<Rightarrow> ''Infinity''
      | NegInf \<Rightarrow> ''-Infinity''
      | Finite q \<Rightarrow>
          if of_int \<lfloor>q\<rfloor> = q \<and> \<bar>q\<bar> \<le> 2 ^ 53 then string_of_int \<lfloor>q\<rfloor> else sd q)"

section \<open>Errors and responses\<close>

datatype ErrorCode = InvalidParams | MethodNotFound

text \<open>
  What the code throws: \<^verbatim>\<open>new McpError(code, message)\<close>, \<^verbatim>\<open>new Error(message)\<close>, and
  the TypeError of the runtime when a property of \<^verbatim>\<open>undefined\<close> is read.
\<close>

datatype exn = McpError ErrorCode string | Error string | TypeError string

text \<open>A promise is pending, resolved with a value, or rejected with what was thrown.\<close>

datatype 'a promise = Pending | Resolved 'a | Rejected exn

record content_item =
  item_type :: string
  item_text :: string

text \<open>\<^verbatim>\<open>ToolResponse\<close>; \<open>isError = False\<close> stands for the absent field.\<close>

record ToolResponse =
  content :: "content_item list"
  isError :: bool

section \<open>Field validators\<close>

definition validateRequiredString :: "jsval \<Rightarrow> string \<Rightarrow> exn + string" where
  "validateRequiredString v fieldName =
     (case v of
        JString s \<Rightarrow>
          if trim s = [] then
            Inl (McpError InvalidParams (fieldName @ '' is required and must be a non-empty string''))
          else Inr s
      | _ \<Rightarrow> Inl (McpError InvalidParams (fieldName @ '' is required and must be a non-empty string'')))"

text \<open>The result \<open>None\<close> is \<^verbatim>\<open>undefined\<close>; a bound \<open>None\<close> is a bound not supplied.\<close>

definition validateNumber ::
  "(rat \<Rightarrow> string) \<Rightarrow> jsval \<Rightarrow> string \<Rightarrow> jsnum option \<Rightarrow> jsnum option \<Rightarrow> exn + jsnum option" where
  "validateNumber sd v fieldName min_opt max_opt =
     (if v = JUndefined \<or> v = JNull then Inr None
      else case v of
        JNumber n \<Rightarrow>
          if isNaN n then Inl (McpError InvalidParams (fieldName @ '' must be a valid number''))
          else if min_opt \<noteq> None \<and> num_less n (the min_opt) then
            Inl (McpError InvalidParams
              (fieldName @ '' must be at least '' @ number_toString sd (the min_opt)))
          else if max_opt \<noteq> None \<and> num_less (the max_opt) n then
            Inl (McpError InvalidParams
              (fieldName @ '' must be at most '' @ number_toString sd (the max_opt)))
          else Inr (Some n)
      | _ \<Rightarrow> Inl (McpError InvalidParams (fieldName @ '' must be a valid number'')))"

section \<open>Process executor\<close>

text \<open>
  What \<^verbatim>\<open>spawn\<close> is called with, and what the child process then does: the events
  it emits, in order, on its two streams and on the process object. An \<open>ErrorEvent\<close> is
  the \<^verbatim>\<open>'error'\<close> event (the process could not be started), a \<open>CloseEvent\<close> is
  \<^verbatim>\<open>'close'\<close> with the exit code, \<open>None\<close> for \<^verbatim>\<open>null\<close>.
\<close>

record spawn_request =
  command :: string
  argv :: "jsval list"
  cwd :: string

datatype proc_event =
    StdoutData string
  | StderrData string
  | ErrorEvent string
  | CloseEvent "int option"

text \<open>
  The surroundings of a call: the configured installation path, the environment variable
  \<^verbatim>\<open>VIRTUAL_ENV\<close>, the answer of the operating system to a spawn (the name of an
  error code when it refuses at once, such as \<open>E2BIG\<close>, and otherwise the behaviour of the
  child process), and two renderings of the runtime that are not modelled in full: the
  shortest decimal of a number and the inspection of a string.
\<close>

record runtime =
  fluxPath :: string
  VIRTUAL_ENV :: "string option"
  sync_errno :: "spawn_request \<Rightarrow> string option"
  child :: "spawn_request \<Rightarrow> proc_event list"
  shortest_decimal :: "rat \<Rightarrow> string"
  inspect_other :: "string \<Rightarrow> string"

text \<open>
  The installation path and \<^verbatim>\<open>VIRTUAL_ENV\<close> are read from the environment of the
  server (the server is constructed without a configuration object), and a string of the
  environment holds no NUL.
\<close>

definition environment_ok :: "runtime \<Rightarrow> bool" where
  "environment_ok R =
     (CHR 0x00 \<notin> set (fluxPath R) \<and>
      (case VIRTUAL_ENV R of None \<Rightarrow> True | Some v \<Rightarrow> CHR 0x00 \<notin> set v))"

definition pythonPath :: "runtime \<Rightarrow> string" where
  "pythonPath R =
     (case VIRTUAL_ENV R of
        Some v \<Rightarrow> if v \<noteq> [] then v @ ''/bin/python'' else ''python3''
      | None \<Rightarrow> ''python3'')"

text \<open>The exit code inside the template literal of the failure message.\<close>

definition code_text :: "int option \<Rightarrow> string" where
  "code_text code = (case code of None \<Rightarrow> ''null'' | Some c \<Rightarrow> string_of_int c)"

text \<open>
  The listeners of \<^verbatim>\<open>runPythonCommand\<close>, run over the events with the two
  accumulators \<open>output\<close> and \<open>errorOutput\<close>. The first event that settles the promise
  decides it; a child that never closes leaves it pending.
\<close>

fun listen :: "proc_event list \<Rightarrow> string \<Rightarrow> string \<Rightarrow> string promise" where
  "listen [] output errorOutput = Pending"
| "listen (StdoutData d # es) output errorOutput = listen es (output @ d) errorOutput"
| "listen (StderrData d # es) output errorOutput = listen es output (errorOutput @ d)"
| "listen (ErrorEvent m # es) output errorOutput =
     Rejected (Error (''Failed to spawn Python process: '' @ m))"
| "listen (CloseEvent code # es) output errorOutput =
     (if code = Some 0 then Resolved output
      else Rejected (Error (''Flux command failed (exit code '' @ code_text code @ ''): '' @ errorOutput)))"

text \<open>
  \<^verbatim>\<open>spawn\<close> checks its argument array before it starts anything: the first element that
  is a string with a NUL code unit makes it throw a TypeError that names the position and
  shows the string as \<^verbatim>\<open>util.inspect\<close> prints it. A short string of printable ASCII
  characters other than the single quote and the backslash, with NUL among them, is
  printed between single quotes with each NUL as \<^verbatim>\<open>\x00\<close>; the inspection of any other
  string is the parameter \<open>other\<close>.
\<close>

definition has_null_byte :: "jsval \<Rightarrow> bool" where
  "has_null_byte v = (case v of JString s \<Rightarrow> CHR 0x00 \<in> set s | _ \<Rightarrow> False)"

fun null_byte_index :: "jsval list \<Rightarrow> nat \<Rightarrow> (nat \<times> jsval) option" where
  "null_byte_index [] i = None"
| "null_byte_index (v # vs) i = (if has_null_byte v then Some (i, v) else null_byte_index vs (Suc i))"

definition plain_char :: "char \<Rightarrow> bool" where
  "plain_char c = (32 \<le> (of_char c :: nat) \<and> (of_char c :: nat) \<le> 126 \<and> c \<noteq> CHR 0x27 \<and> c \<noteq> CHR 0x5C)"

definition inspect_string :: "(string \<Rightarrow> string) \<Rightarrow> string \<Rightarrow> string" where
  "inspect_string other s =
     (if list_all (\<lambda>c. c = CHR 0x00 \<or> plain_char c) s \<and> length s \<le> 16 then
        [CHR 0x27] @ concat (map (\<lambda>c. if c = CHR 0x00 then [CHR 0x5C] @ ''x00'' else [c]) s) @ [CHR 0x27]
      else other s)"

definition null_byte_error :: "runtime \<Rightarrow> nat \<Rightarrow> jsval \<Rightarrow> exn" where
  "null_byte_error R i v =
     TypeError (''The argument '' @ [CHR 0x27] @ ''args['' @ string_of_nat i @ '']'' @ [CHR 0x27]
                @ '' must be a string without null bytes. Received ''
                @ (case v of JString s \<Rightarrow> inspect_string (inspect_other R) s | _ \<Rightarrow> []))"

text \<open>
  The call of \<^verbatim>\<open>spawn\<close>: it throws for a NUL in the argument array, it throws the error
  of the operating system when that refuses at once (\<^verbatim>\<open>spawn E2BIG\<close>), and otherwise it
  returns a process, whose events are those of the child. A process that cannot be found
  or started is reported later, by the \<^verbatim>\<open>'error'\<close> event.
\<close>

definition spawn :: "runtime \<Rightarrow> spawn_request \<Rightarrow> exn + proc_event list" where
  "spawn R req =
     (case null_byte_index (argv req) 0 of
        Some (i, v) \<Rightarrow> Inl (null_byte_error R i v)
      | None \<Rightarrow>
          (case sync_errno R req of
             Some code \<Rightarrow> Inl (Error (''spawn '' @ code))
           | None \<Rightarrow> Inr (child R req)))"

text \<open>
  \<^verbatim>\<open>runPythonCommand(args)\<close>: the promise and the processes started. An argument of
  \<open>None\<close> is a missing array. An error thrown inside the executor of the promise, as by
  \<^verbatim>\<open>spawn\<close>, rejects the promise.
\<close>

definition runPythonCommand ::
  "runtime \<Rightarrow> jsval list option \<Rightarrow> string promise \<times> spawn_request list" where
  "runPythonCommand R args =
     (if args = None \<or> length (the args) = 0 then
        (Rejected (Error ''No command arguments provided''), [])
      else
        let req = \<lparr>command = pythonPath R, argv = JString ''fluxcli.py'' # the args, cwd = fluxPath R\<rparr>
        in (case spawn R req of
              Inl e \<Rightarrow> (Rejected e, [])
            | Inr events \<Rightarrow> (listen events [] [], [req])))"

section \<open>Tool call handler\<close>

text \<open>Reading a property of the arguments object; a missing key reads as \<^verbatim>\<open>undefined\<close>.\<close>

definition field :: "(string \<rightharpoonup> jsval) \<Rightarrow> string \<Rightarrow> jsval" where
  "field args k = (case args k of None \<Rightarrow> JUndefined | Some v \<Rightarrow> v)"

text \<open>A validator's result feeds the rest of the case; a throw leaves the case.\<close>

definition and_then :: "exn + 'a \<Rightarrow> ('a \<Rightarrow> exn + 'b) \<Rightarrow> exn + 'b" where
  "and_then r k = (case r of Inl e \<Rightarrow> Inl e | Inr v \<Rightarrow> k v)"

text \<open>
  \<^verbatim>\<open>if (x) cmdArgs.push(flag, x.toString())\<close> and
  \<^verbatim>\<open>if (x !== undefined) cmdArgs.push(flag, x.toString())\<close> for a validated number \<open>x\<close>,
  and \<^verbatim>\<open>if (args.f) cmdArgs.push(flag, args.f)\<close> for a field that is not validated.
\<close>

definition push_if_truthy_number :: "runtime \<Rightarrow> string \<Rightarrow> jsnum option \<Rightarrow> jsval list" where
  "push_if_truthy_number R flag x =
     (case x of
        None \<Rightarrow> []
      | Some n \<Rightarrow>
          if truthy (JNumber n) then [JString flag, JString (number_toString (shortest_decimal R) n)]
          else [])"

definition push_if_defined_number :: "runtime \<Rightarrow> string \<Rightarrow> jsnum option \<Rightarrow> jsval list" where
  "push_if_defined_number R flag x =
     (case x of
        None \<Rightarrow> []
      | Some n \<Rightarrow> [JString flag, JString (number_toString (shortest_decimal R) n)])"

definition push_if_truthy :: "string \<Rightarrow> jsval \<Rightarrow> jsval list" where
  "push_if_truthy flag v = (if truthy v then [JString flag, v] else [])"

text \<open>The four cases of the switch, up to the command arguments handed to the executor.\<close>

definition generate_cmdArgs :: "runtime \<Rightarrow> (string \<rightharpoonup> jsval) \<Rightarrow> exn + jsval list" where
  "generate_cmdArgs R args =
     and_then (validateRequiredString (field args ''prompt'') ''prompt'') (\<lambda>prompt.
     and_then (validateNumber (shortest_decimal R) (field args ''width'') ''width''
                 (Some (Finite 256)) (Some (Finite 2048))) (\<lambda>width.
     and_then (validateNumber (shortest_decimal R) (field args ''height'') ''height''
                 (Some (Finite 256)) (Some (Finite 2048))) (\<lambda>height.
     Inr ([JString ''generate'']
          @ [JString ''--prompt'', JString prompt]
          @ push_if_truthy ''--model'' (field args ''model'')
          @ push_if_truthy ''--aspect-ratio'' (field args ''aspect_ratio'')
          @ push_if_truthy_number R ''--width'' width
          @ push_if_truthy_number R ''--height'' height
          @ push_if_truthy ''--output'' (field args ''output'')))))"

definition img2img_cmdArgs :: "runtime \<Rightarrow> (string \<rightharpoonup> jsval) \<Rightarrow> exn + jsval list" where
  "img2img_cmdArgs R args =
     and_then (validateRequiredString (field args ''image'') ''image'') (\<lambda>image.
     and_then (validateRequiredString (field args ''prompt'') ''prompt'') (\<lambda>prompt.
     and_then (validateRequiredString (field args ''name'') ''name'') (\<lambda>name.
     and_then (validateNumber (shortest_decimal R) (field args ''strength'') ''strength''
                 (Some (Finite 0)) (Some (Finite 1))) (\<lambda>strength.
     and_then (validateNumber (shortest_decimal R) (field args ''width'') ''width''
                 (Some (Finite 256)) (Some (Finite 2048))) (\<lambda>width.
     and_then (validateNumber (shortest_decimal R) (field args ''height'') ''height''
                 (Some (Finite 256)) (Some (Finite 2048))) (\<lambda>height.
     Inr ([JString ''img2img'']
          @ [JString ''--image'', JString image]
          @ [JString ''--prompt'', JString prompt]
          @ [JString ''--name'', JString name]
          @ push_if_truthy ''--model'' (field args ''model'')
          @ push_if_defined_number R ''--strength'' strength
          @ push_if_truthy_number R ''--width'' width
          @ push_if_truthy_number R ''--height'' height
          @ push_if_truthy ''--output'' (field args ''output''))))))))"

definition inpaint_cmdArgs :: "runtime \<Rightarrow> (string \<rightharpoonup> jsval) \<Rightarrow> exn + jsval list" where
  "inpaint_cmdArgs R args =
     and_then (validateRequiredString (field args ''image'') ''image'') (\<lambda>image.
     and_then (validateRequiredString (field args ''prompt'') ''prompt'') (\<lambda>prompt.
     Inr ([JString ''inpaint'']
          @ [JString ''--image'', JString image]
          @ [JString ''--prompt'', JString prompt]
          @ push_if_truthy ''--mask-shape'' (field args ''mask_shape'')
          @ push_if_truthy ''--position'' (field args ''position'')
          @ push_if_truthy ''--output'' (field args ''output''))))"

definition control_cmdArgs :: "runtime \<Rightarrow> (string \<rightharpoonup> jsval) \<Rightarrow> exn + jsval list" where
  "control_cmdArgs R args =
     and_then (validateRequiredString (field args ''type'') ''type'') (\<lambda>type.
     and_then (validateRequiredString (field args ''image'') ''image'') (\<lambda>image.
     and_then (validateRequiredString (field args ''prompt'') ''prompt'') (\<lambda>prompt.
     and_then (validateNumber (shortest_decimal R) (field args ''steps'') ''steps''
                 (Some (Finite 1)) (Some (Finite 100))) (\<lambda>steps.
     and_then (validateNumber (shortest_decimal R) (field args ''guidance'') ''guidance''
                 (Some (Finite 0)) (Some (Finite 100))) (\<lambda>guidance.
     Inr ([JString ''control'']
          @ [JString ''--type'', JString type]
          @ [JString ''--image'', JString image]
          @ [JString ''--prompt'', JString prompt]
          @ push_if_truthy_number R ''--steps'' steps
          @ push_if_defined_number R ''--guidance'' guidance
          @ push_if_truthy ''--output'' (field args ''output'')))))))"

text \<open>
  When the request carries no arguments object, the first property read of the case throws
  the runtime's TypeError.
\<close>

definition read_of_undefined :: "string \<Rightarrow> exn" where
  "read_of_undefined k =
     TypeError (''Cannot read properties of undefined (reading '' @ [CHR 0x27] @ k @ [CHR 0x27] @ '')'')"

text \<open>The body of the \<^verbatim>\<open>try\<close> up to the call of the executor: the switch on the tool name.\<close>

definition cmdArgs_for :: "runtime \<Rightarrow> string \<Rightarrow> (string \<rightharpoonup> jsval) option \<Rightarrow> exn + jsval list" where
  "cmdArgs_for R name arguments =
     (if name = ''generate'' then
        (case arguments of None \<Rightarrow> Inl (read_of_undefined ''prompt'') | Some args \<Rightarrow> generate_cmdArgs R args)
      else if name = ''img2img'' then
        (case arguments of None \<Rightarrow> Inl (read_of_undefined ''image'') | Some args \<Rightarrow> img2img_cmdArgs R args)
      else if name = ''inpaint'' then
        (case arguments of None \<Rightarrow> Inl (read_of_undefined ''image'') | Some args \<Rightarrow> inpaint_cmdArgs R args)
      else if name = ''control'' then
        (case arguments of None \<Rightarrow> Inl (read_of_undefined ''type'') | Some args \<Rightarrow> control_cmdArgs R args)
      else Inl (McpError MethodNotFound (''Unknown tool: '' @ name)))"

definition success_response :: "string \<Rightarrow> ToolResponse" where
  "success_response output = \<lparr>content = [\<lparr>item_type = ''text'', item_text = output\<rparr>], isError = False\<rparr>"

definition error_response :: "string \<Rightarrow> ToolResponse" where
  "error_response m = \<lparr>content = [\<lparr>item_type = ''text'', item_text = ''Error: '' @ m\<rparr>], isError = True\<rparr>"

text \<open>
  The \<^verbatim>\<open>catch\<close> block: an McpError is thrown again, any other error becomes a response
  with the text of its \<^verbatim>\<open>message\<close>.
\<close>

definition catch_block :: "exn \<Rightarrow> ToolResponse promise" where
  "catch_block e =
     (case e of
        McpError c m \<Rightarrow> Rejected (McpError c m)
      | Error m \<Rightarrow> Resolved (error_response m)
      | TypeError m \<Rightarrow> Resolved (error_response m))"

text \<open>
  The handler of \<^verbatim>\<open>CallToolRequestSchema\<close> on \<^verbatim>\<open>request.params.name\<close> and
  \<^verbatim>\<open>request.params.arguments\<close>: the promise it returns and the processes it spawned.
\<close>

definition handleCall ::
  "runtime \<Rightarrow> string \<Rightarrow> (string \<rightharpoonup> jsval) option \<Rightarrow> ToolResponse promise \<times> spawn_request list" where
  "handleCall R name arguments =
     (case cmdArgs_for R name arguments of
        Inl e \<Rightarrow> (catch_block e, [])
      | Inr cmdArgs \<Rightarrow>
          (case runPythonCommand R (Some cmdArgs) of
             (Resolved output, spawned) \<Rightarrow> (Resolved (success_response output), spawned)
           | (Rejected e, spawned) \<Rightarrow> (catch_block e, spawned)
           | (Pending, spawned) \<Rightarrow> (Pending, spawned)))"

section \<open>Operation schemas and the translation they describe\<close>

text \<open>
  The specification describes the four operations by a table of fields, each with a rule
  and a command-line flag, in declared order. The table below follows section 4.2 of the
  specification; the enumerations are those of the tool catalogue in the source. The field
  \<open>type\<close> of \<open>control\<close> is required, and the handler checks it as a required string.
\<close>

datatype FieldRule =
    RequiredString
  | OptionalNumber rat rat
  | OptionalEnum "string list"
  | OptionalString

definition model_enum :: "string list" where
  "model_enum = [''flux.1.1-pro'', ''flux.1-pro'', ''flux.1-dev'', ''flux.1.1-ultra'']"

definition aspect_ratio_enum :: "string list" where
  "aspect_ratio_enum = [''1:1'', ''4:3'', ''3:4'', ''16:9'', ''9:16'']"

definition mask_shape_enum :: "string list" where
  "mask_shape_enum = [''circle'', ''rectangle'']"

definition position_enum :: "string list" where
  "position_enum = [''center'', ''ground'']"

definition control_type_enum :: "string list" where
  "control_type_enum = [''canny'', ''depth'', ''pose'']"

definition schema :: "string \<Rightarrow> (string \<times> FieldRule \<times> string) list" where
  "schema name =
     (if name = ''generate'' then
        [(''prompt'', RequiredString, ''--prompt''),
         (''model'', OptionalEnum model_enum, ''--model''),
         (''aspect_ratio'', OptionalEnum aspect_ratio_enum, ''--aspect-ratio''),
         (''width'', OptionalNumber 256 2048, ''--width''),
         (''height'', OptionalNumber 256 2048, ''--height''),
         (''output'', OptionalString, ''--output'')]
      else if name = ''img2img'' then
        [(''image'', RequiredString, ''--image''),
         (''prompt'', RequiredString, ''--prompt''),
         (''name'', RequiredString, ''--name''),
         (''model'', OptionalEnum model_enum, ''--model''),
         (''strength'', OptionalNumber 0 1, ''--strength''),
         (''width'', OptionalNumber 256 2048, ''--width''),
         (''height'', OptionalNumber 256 2048, ''--height''),
         (''output'', OptionalString, ''--output'')]
      else if name = ''inpaint'' then
        [(''image'', RequiredString, ''--image''),
         (''prompt'', RequiredString, ''--prompt''),
         (''mask_shape'', OptionalEnum mask_shape_enum, ''--mask-shape''),
         (''position'', OptionalEnum position_enum, ''--position''),
         (''output'', OptionalString, ''--output'')]
      else if name = ''control'' then
        [(''type'', RequiredString, ''--type''),
         (''image'', RequiredString, ''--image''),
         (''prompt'', RequiredString, ''--prompt''),
         (''steps'', OptionalNumber 1 100, ''--steps''),
         (''guidance'', OptionalNumber 0 100, ''--guidance''),
         (''output'', OptionalString, ''--output'')]
      else [])"

text \<open>A field is supplied when the arguments hold a value for it other than null.\<close>

definition supplied :: "jsval \<Rightarrow> bool" where
  "supplied v = (v \<noteq> JUndefined \<and> v \<noteq> JNull)"

text \<open>The value token of a field: a number of a numeric field as text, any other value as it is.\<close>

definition value_token :: "runtime \<Rightarrow> FieldRule \<Rightarrow> jsval \<Rightarrow> jsval" where
  "value_token R rule v =
     (case (rule, v) of
        (OptionalNumber lo hi, JNumber n) \<Rightarrow> JString (number_toString (shortest_decimal R) n)
      | _ \<Rightarrow> v)"

text \<open>
  The translation in the specification's words: the operation name, then flag and value
  for every field that is present, in declared order.
\<close>

definition translate_present :: "runtime \<Rightarrow> string \<Rightarrow> (string \<rightharpoonup> jsval) \<Rightarrow> jsval list" where
  "translate_present R name args =
     JString name #
     concat (map (\<lambda>(f, rule, flag).
                    if supplied (field args f) then [JString flag, value_token R rule (field args f)] else [])
                 (schema name))"

text \<open>
  The translation the handler performs: a required field always, a numeric field when it is
  supplied, an enumeration or free string field when its value is truthy.
\<close>

definition emitted :: "FieldRule \<Rightarrow> jsval \<Rightarrow> bool" where
  "emitted rule v =
     (case rule of
        RequiredString \<Rightarrow> True
      | OptionalNumber lo hi \<Rightarrow> supplied v
      | OptionalEnum allowed \<Rightarrow> truthy v
      | OptionalString \<Rightarrow> truthy v)"

definition translate :: "runtime \<Rightarrow> string \<Rightarrow> (string \<rightharpoonup> jsval) \<Rightarrow> jsval list" where
  "translate R name args =
     JString name #
     concat (map (\<lambda>(f, rule, flag).
                    if emitted rule (field args f) then [JString flag, value_token R rule (field args f)] else [])
                 (schema name))"

text \<open>
  The check the handler runs for a field of the table: the required-string validator, the
  number validator with the bounds of the table, and no check for the other two rules.
\<close>

definition run_rule :: "runtime \<Rightarrow> (string \<rightharpoonup> jsval) \<Rightarrow> string \<times> FieldRule \<times> string \<Rightarrow> exn option" where
  "run_rule R args fr =
     (case fr of (f, rule, flag) \<Rightarrow>
        (case rule of
           RequiredString \<Rightarrow>
             (case validateRequiredString (field args f) f of Inl e \<Rightarrow> Some e | Inr s \<Rightarrow> None)
         | OptionalNumber lo hi \<Rightarrow>
             (case validateNumber (shortest_decimal R) (field args f) f (Some (Finite lo)) (Some (Finite hi)) of
                Inl e \<Rightarrow> Some e | Inr r \<Rightarrow> None)
         | OptionalEnum allowed \<Rightarrow> None
         | OptionalString \<Rightarrow> None))"

fun first_failure :: "exn option list \<Rightarrow> exn option" where
  "first_failure [] = None"
| "first_failure (Some e # rs) = Some e"
| "first_failure (None # rs) = first_failure rs"

text \<open>
  The enumeration rule in the specification's words: an unset field is absent, and a value
  that is not a member of the allowed values fails.
\<close>

definition outside_enumeration :: "string list \<Rightarrow> jsval \<Rightarrow> bool" where
  "outside_enumeration allowed v = (supplied v \<and> v \<notin> set (map JString allowed))"

text \<open>What a computation threw, if it threw.\<close>

definition thrown :: "exn + 'a \<Rightarrow> exn option" where
  "thrown r = (case r of Inl e \<Rightarrow> Some e | Inr v \<Rightarrow> None)"

text \<open>
  The data events before the event that settles the promise, and what they accumulate on
  each stream.
\<close>

fun is_data :: "proc_event \<Rightarrow> bool" where
  "is_data (StdoutData d) = True"
| "is_data (StderrData d) = True"
| "is_data (ErrorEvent m) = False"
| "is_data (CloseEvent code) = False"

fun stdout_of :: "proc_event list \<Rightarrow> string" where
  "stdout_of [] = []"
| "stdout_of (StdoutData d # es) = d @ stdout_of es"
| "stdout_of (e # es) = stdout_of es"

fun stderr_of :: "proc_event list \<Rightarrow> string" where
  "stderr_of [] = []"
| "stderr_of (StderrData d # es) = d @ stderr_of es"
| "stderr_of (e # es) = stderr_of es"

text \<open>The request that \<^verbatim>\<open>runPythonCommand\<close> spawns for a command vector.\<close>

definition spawn_of :: "runtime \<Rightarrow> jsval list \<Rightarrow> spawn_request" where
  "spawn_of R cmd = \<lparr>command = pythonPath R, argv = JString ''fluxcli.py'' # cmd, cwd = fluxPath R\<rparr>"

section \<open>Surroundings for the worked examples\<close>

text \<open>
  A child process that emits a fixed list of events whatever it is spawned with, an
  operating system that never refuses a spawn at once, and a runtime around them. The
  examples render small integral numbers and short plain strings only, so the two
  renderings that are parameters are never consulted.
\<close>

definition scripted_child :: "proc_event list \<Rightarrow> spawn_request \<Rightarrow> proc_event list" where
  "scripted_child evs req = evs"

definition never_refuses :: "spawn_request \<Rightarrow> string option" where
  "never_refuses req = None"

definition no_rendering :: "rat \<Rightarrow> string" where
  "no_rendering q = []"

definition no_inspection :: "string \<Rightarrow> string" where
  "no_inspection s = []"

definition example_runtime :: "proc_event list \<Rightarrow> runtime" where
  "example_runtime evs =
     \<lparr>fluxPath = ''/opt/flux'', VIRTUAL_ENV = None, sync_errno = never_refuses,
      child = scripted_child evs, shortest_decimal = no_rendering, inspect_other = no_inspection\<rparr>"

section \<open>Auxiliary facts\<close>

lemmas eval_defs =
  cmdArgs_for_def generate_cmdArgs_def img2img_cmdArgs_def inpaint_cmdArgs_def control_cmdArgs_def
  and_then_def validateRequiredString_def validateNumber_def field_def trim_def is_space_def
  isNaN_def push_if_truthy_def push_if_truthy_number_def push_if_defined_number_def
  number_toString_def string_of_int_def string_of_nat.simps handleCall_def runPythonCommand_def
  catch_block_def success_response_def error_response_def read_of_undefined_def code_text_def
  example_runtime_def scripted_child_def pythonPath_def never_refuses_def spawn_def
  has_null_byte_def null_byte_error_def inspect_string_def plain_char_def

lemma validateRequiredString_Inr_iff:
  "validateRequiredString v f = Inr s \<longleftrightarrow> v = JString s \<and> trim s \<noteq> []"
  by (auto simp: validateRequiredString_def split: jsval.splits if_splits)

lemma validateRequiredString_Inl:
  "validateRequiredString v f = Inl e \<Longrightarrow>
     e = McpError InvalidParams (f @ '' is required and must be a non-empty string'')"
  by (auto simp: validateRequiredString_def split: jsval.splits if_splits)

lemma validateNumber_Inl:
  "validateNumber sd v f mn mx = Inl e \<Longrightarrow> \<exists>m. e = McpError InvalidParams (f @ m)"
  by (auto simp: validateNumber_def split: jsval.splits if_splits)

lemma validateNumber_bounded_Inr:
  "validateNumber sd v f (Some (Finite lo)) (Some (Finite hi)) = Inr r \<longleftrightarrow>
     (r = None \<and> \<not> supplied v) \<or> (\<exists>x. v = JNumber (Finite x) \<and> r = Some (Finite x) \<and> lo \<le> x \<and> x \<le> hi)"
proof (cases v)
  case (JNumber n)
  then show ?thesis
    by (cases n) (auto simp: validateNumber_def supplied_def isNaN_def)
qed (auto simp: validateNumber_def supplied_def)

lemma push_if_truthy_number_bounded:
  "0 < lo \<Longrightarrow> validateNumber (shortest_decimal R) v f (Some (Finite lo)) (Some (Finite hi)) = Inr r \<Longrightarrow>
   push_if_truthy_number R flag r =
     (if emitted (OptionalNumber lo hi) v then [JString flag, value_token R (OptionalNumber lo hi) v] else [])"
  by (auto simp: validateNumber_bounded_Inr push_if_truthy_number_def emitted_def value_token_def supplied_def)

lemma push_if_defined_number_bounded:
  "validateNumber (shortest_decimal R) v f (Some (Finite lo)) (Some (Finite hi)) = Inr r \<Longrightarrow>
   push_if_defined_number R flag r =
     (if emitted (OptionalNumber lo hi) v then [JString flag, value_token R (OptionalNumber lo hi) v] else [])"
  by (auto simp: validateNumber_bounded_Inr push_if_defined_number_def emitted_def value_token_def supplied_def)

lemma push_if_truthy_emitted:
  "push_if_truthy flag v = (if emitted OptionalString v then [JString flag, value_token R OptionalString v] else [])"
  "push_if_truthy flag v = (if emitted (OptionalEnum allowed) v then [JString flag, value_token R (OptionalEnum allowed) v] else [])"
  by (auto simp: push_if_truthy_def emitted_def value_token_def split: jsval.splits)

lemma required_token:
  "validateRequiredString v f = Inr s \<Longrightarrow>
   [JString flag, JString s] = (if emitted RequiredString v then [JString flag, value_token R RequiredString v] else [])"
  by (auto simp: validateRequiredString_Inr_iff emitted_def value_token_def)

lemma generate_cmdArgs_translate:
  assumes "generate_cmdArgs R args = Inr cmd"
  shows "cmd = translate R ''generate'' args"
proof -
  from assms obtain prompt width height where
    p: "validateRequiredString (field args ''prompt'') ''prompt'' = Inr prompt" and
    w: "validateNumber (shortest_decimal R) (field args ''width'') ''width'' (Some (Finite 256)) (Some (Finite 2048)) = Inr width" and
    h: "validateNumber (shortest_decimal R) (field args ''height'') ''height'' (Some (Finite 256)) (Some (Finite 2048)) = Inr height" and
    c: "cmd = [JString ''generate''] @ [JString ''--prompt'', JString prompt]
          @ push_if_truthy ''--model'' (field args ''model'')
          @ push_if_truthy ''--aspect-ratio'' (field args ''aspect_ratio'')
          @ push_if_truthy_number R ''--width'' width
          @ push_if_truthy_number R ''--height'' height
          @ push_if_truthy ''--output'' (field args ''output'')"
    by (auto simp: generate_cmdArgs_def and_then_def split: sum.splits)
  show ?thesis
    unfolding c translate_def schema_def
    using required_token[OF p, of "''--prompt''" R]
      push_if_truthy_number_bounded[OF _ w, of "''--width''"]
      push_if_truthy_number_bounded[OF _ h, of "''--height''"]
      push_if_truthy_emitted(1)[where flag="''--output''" and v="field args ''output''" and R=R]
      push_if_truthy_emitted(2)[where flag="''--model''" and v="field args ''model''" and R=R and allowed=model_enum]
      push_if_truthy_emitted(2)[where flag="''--aspect-ratio''" and v="field args ''aspect_ratio''" and R=R and allowed=aspect_ratio_enum]
    by simp
qed

lemma img2img_cmdArgs_translate:
  assumes "img2img_cmdArgs R args = Inr cmd"
  shows "cmd = translate R ''img2img'' args"
proof -
  from assms obtain image prompt name strength width height where
    i: "validateRequiredString (field args ''image'') ''image'' = Inr image" and
    p: "validateRequiredString (field args ''prompt'') ''prompt'' = Inr prompt" and
    n: "validateRequiredString (field args ''name'') ''name'' = Inr name" and
    s: "validateNumber (shortest_decimal R) (field args ''strength'') ''strength'' (Some (Finite 0)) (Some (Finite 1)) = Inr strength" and
    w: "validateNumber (shortest_decimal R) (field args ''width'') ''width'' (Some (Finite 256)) (Some (Finite 2048)) = Inr width" and
    h: "validateNumber (shortest_decimal R) (field args ''height'') ''height'' (Some (Finite 256)) (Some (Finite 2048)) = Inr height" and
    c: "cmd = [JString ''img2img''] @ [JString ''--image'', JString image]
          @ [JString ''--prompt'', JString prompt] @ [JString ''--name'', JString name]
          @ push_if_truthy ''--model'' (field args ''model'')
          @ push_if_defined_number R ''--strength'' strength
          @ push_if_truthy_number R ''--width'' width
          @ push_if_truthy_number R ''--height'' height
          @ push_if_truthy ''--output'' (field args ''output'')"
    by (auto simp: img2img_cmdArgs_def and_then_def split: sum.splits)
  show ?thesis
    unfolding c translate_def schema_def
    using required_token[OF i, of "''--image''" R] required_token[OF p, of "''--prompt''" R]
      required_token[OF n, of "''--name''" R]
      push_if_defined_number_bounded[OF s, of "''--strength''"]
      push_if_truthy_number_bounded[OF _ w, of "''--width''"]
      push_if_truthy_number_bounded[OF _ h, of "''--height''"]
      push_if_truthy_emitted(1)[where flag="''--output''" and v="field args ''output''" and R=R]
      push_if_truthy_emitted(2)[where flag="''--model''" and v="field args ''model''" and R=R and allowed=model_enum]
    by simp
qed

lemma inpaint_cmdArgs_translate:
  assumes "inpaint_cmdArgs R args = Inr cmd"
  shows "cmd = translate R ''inpaint'' args"
proof -
  from assms obtain image prompt where
    i: "validateRequiredString (field args ''image'') ''image'' = Inr image" and
    p: "validateRequiredString (field args ''prompt'') ''prompt'' = Inr prompt" and
    c: "cmd = [JString ''inpaint''] @ [JString ''--image'', JString image]
          @ [JString ''--prompt'', JString prompt]
          @ push_if_truthy ''--mask-shape'' (field args ''mask_shape'')
          @ push_if_truthy ''--position'' (field args ''position'')
          @ push_if_truthy ''--output'' (field args ''output'')"
    by (auto simp: inpaint_cmdArgs_def and_then_def split: sum.splits)
  show ?thesis
    unfolding c translate_def schema_def
    using required_token[OF i, of "''--image''" R] required_token[OF p, of "''--prompt''" R]
      push_if_truthy_emitted(1)[where flag="''--output''" and v="field args ''output''" and R=R]
      push_if_truthy_emitted(2)[where flag="''--mask-shape''" and v="field args ''mask_shape''" and R=R and allowed=mask_shape_enum]
      push_if_truthy_emitted(2)[where flag="''--position''" and v="field args ''position''" and R=R and allowed=position_enum]
    by simp
qed

lemma control_cmdArgs_translate:
  assumes "control_cmdArgs R args = Inr cmd"
  shows "cmd = translate R ''control'' args"
proof -
  from assms obtain type image prompt steps guidance where
    t: "validateRequiredString (field args ''type'') ''type'' = Inr type" and
    i: "validateRequiredString (field args ''image'') ''image'' = Inr image" and
    p: "validateRequiredString (field args ''prompt'') ''prompt'' = Inr prompt" and
    s: "validateNumber (shortest_decimal R) (field args ''steps'') ''steps'' (Some (Finite 1)) (Some (Finite 100)) = Inr steps" and
    g: "validateNumber (shortest_decimal R) (field args ''guidance'') ''guidance'' (Some (Finite 0)) (Some (Finite 100)) = Inr guidance" and
    c: "cmd = [JString ''control''] @ [JString ''--type'', JString type]
          @ [JString ''--image'', JString image] @ [JString ''--prompt'', JString prompt]
          @ push_if_truthy_number R ''--steps'' steps
          @ push_if_defined_number R ''--guidance'' guidance
          @ push_if_truthy ''--output'' (field args ''output'')"
    by (auto simp: control_cmdArgs_def and_then_def split: sum.splits)
  show ?thesis
    unfolding c translate_def schema_def
    using required_token[OF t, of "''--type''" R] required_token[OF i, of "''--image''" R]
      required_token[OF p, of "''--prompt''" R]
      push_if_truthy_number_bounded[OF _ s, of "''--steps''"]
      push_if_defined_number_bounded[OF g, of "''--guidance''"]
      push_if_truthy_emitted(1)[where flag="''--output''" and v="field args ''output''" and R=R]
    by simp
qed

lemma cmdArgs_for_translate:
  "cmdArgs_for R name (Some args) = Inr cmd \<Longrightarrow> cmd = translate R name args"
  by (auto simp: cmdArgs_for_def split: if_splits
      dest: generate_cmdArgs_translate img2img_cmdArgs_translate inpaint_cmdArgs_translate
        control_cmdArgs_translate)

lemma generate_first_failure:
  "thrown (generate_cmdArgs R args) = first_failure (map (run_rule R args) (schema ''generate''))"
  by (simp add: thrown_def generate_cmdArgs_def and_then_def run_rule_def schema_def split: sum.splits)

lemma img2img_first_failure:
  "thrown (img2img_cmdArgs R args) = first_failure (map (run_rule R args) (schema ''img2img''))"
  by (simp add: thrown_def img2img_cmdArgs_def and_then_def run_rule_def schema_def split: sum.splits)

lemma inpaint_first_failure:
  "thrown (inpaint_cmdArgs R args) = first_failure (map (run_rule R args) (schema ''inpaint''))"
  by (simp add: thrown_def inpaint_cmdArgs_def and_then_def run_rule_def schema_def split: sum.splits)

lemma control_first_failure:
  "thrown (control_cmdArgs R args) = first_failure (map (run_rule R args) (schema ''control''))"
  by (simp add: thrown_def control_cmdArgs_def and_then_def run_rule_def schema_def split: sum.splits)

lemma cmdArgs_for_first_failure:
  "name \<in> {''generate'', ''img2img'', ''inpaint'', ''control''} \<Longrightarrow>
   thrown (cmdArgs_for R name (Some args)) = first_failure (map (run_rule R args) (schema name))"
  by (auto simp: cmdArgs_for_def generate_first_failure img2img_first_failure inpaint_first_failure
      control_first_failure)

lemma run_rule_Some:
  "run_rule R args (f, rule, flag) = Some e \<Longrightarrow> \<exists>m. e = McpError InvalidParams (f @ m)"
  by (auto simp: run_rule_def split: FieldRule.splits sum.splits
      dest: validateRequiredString_Inl validateNumber_Inl)

lemma first_failure_Some:
  "first_failure (map g xs) = Some e \<Longrightarrow> \<exists>x \<in> set xs. g x = Some e"
proof (induction xs)
  case Nil
  then show ?case by simp
next
  case (Cons x xs)
  then show ?case by (cases "g x") auto
qed

lemma listen_data:
  "list_all is_data pre \<Longrightarrow>
   listen (pre @ es) out err = listen es (out @ stdout_of pre) (err @ stderr_of pre)"
proof (induction pre arbitrary: out err)
  case Nil
  then show ?case by simp
next
  case (Cons e pre)
  then show ?case by (cases e) simp_all
qed

lemma listen_not_contract:
  "listen evs out err \<noteq> Rejected (Error ''No command arguments provided'')"
  by (induction evs out err rule: listen.induct) simp_all


lemma runPythonCommand_spawns:
  "cmd \<noteq> [] \<Longrightarrow>
   runPythonCommand R (Some cmd) =
     (case spawn R (spawn_of R cmd) of
        Inl e \<Rightarrow> (Rejected e, [])
      | Inr events \<Rightarrow> (listen events [] [], [spawn_of R cmd]))"
  by (simp add: runPythonCommand_def spawn_of_def Let_def split: sum.splits)

lemma spawn_not_contract:
  "spawn R req \<noteq> Inl (Error ''No command arguments provided'')"
  "spawn R req \<noteq> Inl (TypeError ''No command arguments provided'')"
  by (simp_all add: spawn_def null_byte_error_def split: option.splits)



lemma schema_nonempty_tools:
  "schema name \<noteq> [] \<Longrightarrow> name \<in> {''generate'', ''img2img'', ''inpaint'', ''control''}"
  by (auto simp: schema_def split: if_splits)

lemma thrown_Some: "thrown r = Some e \<longleftrightarrow> r = Inl e"
  by (cases r) (simp_all add: thrown_def)

lemma thrown_None: "thrown r = None \<longleftrightarrow> (\<exists>v. r = Inr v)"
  by (cases r) (simp_all add: thrown_def)

lemma no_failure_spawns:
  assumes "name \<in> {''generate'', ''img2img'', ''inpaint'', ''control''}"
    and "first_failure (map (run_rule R args) (schema name)) = None"
  shows "cmdArgs_for R name (Some args) = Inr (translate R name args)"
proof -
  from assms have "thrown (cmdArgs_for R name (Some args)) = None"
    by (simp only: cmdArgs_for_first_failure)
  then obtain cmd where c: "cmdArgs_for R name (Some args) = Inr cmd"
    by (auto simp: thrown_None)
  with cmdArgs_for_translate[OF c] show ?thesis
    by simp
qed

lemma num_less_PosInf_left: "\<not> num_less PosInf b"
  by (cases b) simp_all

lemma num_less_NegInf_right: "\<not> num_less a NegInf"
  by (cases a) simp_all

lemma required_count:
  "name \<in> {''generate'', ''img2img'', ''inpaint'', ''control''} \<Longrightarrow>
   \<forall>(f, rule, flag) \<in> set (schema name). rule \<noteq> RequiredString \<longrightarrow> \<not> supplied (field args f) \<Longrightarrow>
   length (translate R name args) =
     1 + 2 * length (filter (\<lambda>(f, rule, flag). rule = RequiredString) (schema name))"
proof -
  assume n: "name \<in> {''generate'', ''img2img'', ''inpaint'', ''control''}"
    and abs: "\<forall>(f, rule, flag) \<in> set (schema name). rule \<noteq> RequiredString \<longrightarrow> \<not> supplied (field args f)"
  have nt: "\<not> supplied v \<Longrightarrow> \<not> truthy v" for v
    by (cases v) (simp_all add: supplied_def)
  from n consider "name = ''generate''" | "name = ''img2img''" | "name = ''inpaint''" | "name = ''control''"
    by auto
  then show ?thesis
  proof cases
    case 1
    with abs show ?thesis by (simp add: translate_def schema_def emitted_def nt)
  next
    case 2
    with abs show ?thesis by (simp add: translate_def schema_def emitted_def nt)
  next
    case 3
    with abs show ?thesis by (simp add: translate_def schema_def emitted_def nt)
  next
    case 4
    with abs show ?thesis by (simp add: translate_def schema_def emitted_def nt)
  qed
qed

lemma enum_field_ignored:
  assumes "name \<in> {''generate'', ''img2img'', ''inpaint'', ''control''}"
    and "\<forall>(g, rule, flag) \<in> set (schema name). g = f \<longrightarrow> rule \<noteq> RequiredString \<and> (\<forall>lo hi. rule \<noteq> OptionalNumber lo hi)"
  shows "thrown (cmdArgs_for R name (Some (args(f \<mapsto> v)))) = thrown (cmdArgs_for R name (Some args))"
proof -
  have "map (run_rule R (args(f \<mapsto> v))) (schema name) = map (run_rule R args) (schema name)"
  proof (rule map_cong[OF refl])
    fix fr assume fr: "fr \<in> set (schema name)"
    obtain g rule flag where d: "fr = (g, rule, flag)" by (cases fr)
    show "run_rule R (args(f \<mapsto> v)) fr = run_rule R args fr"
      using assms(2) fr d by (cases rule) (auto simp: run_rule_def field_def)
  qed
  then show ?thesis
    by (simp only: cmdArgs_for_first_failure[OF assms(1)])
qed

section \<open>The claims\<close>

subsection \<open>C1: how the outcome of the process becomes a response\<close>




subsection \<open>C2: the command vector\<close>

text \<open>
  Claim C2 says that the vector holds flag and value for exactly the fields that are
  present. The handler tests the enumeration and free string fields for truthiness, so a
  field that is present with an empty string is left out: \<open>generate\<close> with a prompt and
  \<open>output\<close> set to the empty string yields no \<open>--output\<close> flag, where the translation of
  the present fields would have one.
\<close>

theorem empty_output_not_emitted:
  "cmdArgs_for (example_runtime []) ''generate''
       (Some [''prompt'' \<mapsto> JString ''x'', ''output'' \<mapsto> JString '''']) =
     Inr [JString ''generate'', JString ''--prompt'', JString ''x'']
   \<and> supplied (field [''prompt'' \<mapsto> JString ''x'', ''output'' \<mapsto> JString ''''] ''output'')
   \<and> translate_present (example_runtime []) ''generate''
       [''prompt'' \<mapsto> JString ''x'', ''output'' \<mapsto> JString ''''] =
     [JString ''generate'', JString ''--prompt'', JString ''x'', JString ''--output'', JString '''']
   \<and> cmdArgs_for (example_runtime []) ''generate''
       (Some [''prompt'' \<mapsto> JString ''x'', ''output'' \<mapsto> JString '''']) \<noteq>
     Inr (translate_present (example_runtime []) ''generate''
       [''prompt'' \<mapsto> JString ''x'', ''output'' \<mapsto> JString ''''])"
  by (simp add: eval_defs translate_present_def schema_def supplied_def value_token_def)

text \<open>
  Claim C2, amended. For every operation and every argument set that passes validation,
  the command vector is the operation name followed, in the declared order of the schema, by
  flag and value for every required field, for every numeric field that is supplied, and
  for every enumeration or free string field whose value is truthy; nothing else is emitted,
  no default is ever substituted. When every optional field is absent the vector has
  1 + 2 * (number of required fields) tokens, and \<open>generate\<close> with prompt \<open>x\<close> and width 300
  yields \<open>generate --prompt x --width 300\<close>.
\<close>

theorem command_vector_translation:
  "(cmdArgs_for R name (Some args) = Inr cmd \<longrightarrow> cmd = translate R name args)
   \<and> (name \<in> {''generate'', ''img2img'', ''inpaint'', ''control''}
        \<and> first_failure (map (run_rule R args) (schema name)) = None \<longrightarrow>
        cmdArgs_for R name (Some args) = Inr (translate R name args))
   \<and> (cmdArgs_for R name (Some args) = Inr cmd
        \<and> (\<forall>(f, rule, flag) \<in> set (schema name). rule \<noteq> RequiredString \<longrightarrow> \<not> supplied (field args f)) \<longrightarrow>
        length cmd = 1 + 2 * length (filter (\<lambda>(f, rule, flag). rule = RequiredString) (schema name)))
   \<and> cmdArgs_for R ''generate'' (Some [''prompt'' \<mapsto> JString ''x'', ''width'' \<mapsto> JNumber (Finite 300)]) =
        Inr [JString ''generate'', JString ''--prompt'', JString ''x'', JString ''--width'', JString ''300'']"
proof -
  have a: "cmdArgs_for R name (Some args) = Inr cmd \<longrightarrow> cmd = translate R name args"
    using cmdArgs_for_translate by blast
  have b: "name \<in> {''generate'', ''img2img'', ''inpaint'', ''control''}
        \<and> first_failure (map (run_rule R args) (schema name)) = None \<longrightarrow>
        cmdArgs_for R name (Some args) = Inr (translate R name args)"
    using no_failure_spawns by blast
  have c: "cmdArgs_for R name (Some args) = Inr cmd
        \<and> (\<forall>(f, rule, flag) \<in> set (schema name). rule \<noteq> RequiredString \<longrightarrow> \<not> supplied (field args f)) \<longrightarrow>
        length cmd = 1 + 2 * length (filter (\<lambda>(f, rule, flag). rule = RequiredString) (schema name))"
  proof (intro impI, elim conjE)
    assume inr: "cmdArgs_for R name (Some args) = Inr cmd"
      and abs: "\<forall>(f, rule, flag) \<in> set (schema name). rule \<noteq> RequiredString \<longrightarrow> \<not> supplied (field args f)"
    from inr have n: "name \<in> {''generate'', ''img2img'', ''inpaint'', ''control''}"
      by (auto simp: cmdArgs_for_def split: if_splits)
    from cmdArgs_for_translate[OF inr] required_count[OF n abs]
    show "length cmd = 1 + 2 * length (filter (\<lambda>(f, rule, flag). rule = RequiredString) (schema name))"
      by simp
  qed
  have d: "cmdArgs_for R ''generate'' (Some [''prompt'' \<mapsto> JString ''x'', ''width'' \<mapsto> JNumber (Finite 300)]) =
        Inr [JString ''generate'', JString ''--prompt'', JString ''x'', JString ''--width'', JString ''300'']"
    by (simp add: eval_defs)
  show ?thesis
    by (intro conjI) (rule a, rule b, rule c, rule d)
qed

text \<open>The claim at work: \<open>img2img\<close> with its three required fields and nothing else yields seven tokens.\<close>

theorem command_vector_translation_witness:
  "cmdArgs_for (example_runtime []) ''img2img''
       (Some [''image'' \<mapsto> JString ''in.jpg'', ''prompt'' \<mapsto> JString ''p'', ''name'' \<mapsto> JString ''n'']) =
     Inr [JString ''img2img'', JString ''--image'', JString ''in.jpg'', JString ''--prompt'', JString ''p'',
          JString ''--name'', JString ''n'']
   \<and> translate (example_runtime []) ''img2img''
       [''image'' \<mapsto> JString ''in.jpg'', ''prompt'' \<mapsto> JString ''p'', ''name'' \<mapsto> JString ''n''] =
     [JString ''img2img'', JString ''--image'', JString ''in.jpg'', JString ''--prompt'', JString ''p'',
      JString ''--name'', JString ''n'']
   \<and> length [JString ''img2img'', JString ''--image'', JString ''in.jpg'', JString ''--prompt'', JString ''p'',
          JString ''--name'', JString ''n''] =
       1 + 2 * length (filter (\<lambda>(f, rule, flag). rule = RequiredString) (schema ''img2img''))
   \<and> length (filter (\<lambda>(f, rule, flag). rule = RequiredString) (schema ''img2img'')) = 3"
proof -
  let ?R = "example_runtime []"
  let ?args = "[''image'' \<mapsto> JString ''in.jpg'', ''prompt'' \<mapsto> JString ''p'', ''name'' \<mapsto> JString ''n'']"
  let ?cmd = "[JString ''img2img'', JString ''--image'', JString ''in.jpg'', JString ''--prompt'', JString ''p'',
          JString ''--name'', JString ''n'']"
  have h1: "cmdArgs_for ?R ''img2img'' (Some ?args) = Inr ?cmd"
    by (simp add: eval_defs)
  have h2: "\<forall>(f, rule, flag) \<in> set (schema ''img2img''). rule \<noteq> RequiredString \<longrightarrow> \<not> supplied (field ?args f)"
    by (simp add: schema_def supplied_def field_def)
  have h3: "length (filter (\<lambda>(f, rule, flag). rule = RequiredString) (schema ''img2img'')) = 3"
    by (simp add: schema_def)
  note T = command_vector_translation [of ?R "''img2img''" ?args ?cmd]
  from T h1 have t1: "?cmd = translate ?R ''img2img'' ?args" by blast
  from T h1 h2 have t2: "length ?cmd =
      1 + 2 * length (filter (\<lambda>(f, rule, flag). rule = RequiredString) (schema ''img2img''))"
    by blast
  show ?thesis
    by (intro conjI) (rule h1, rule t1[symmetric], rule t2, rule h3)
qed

subsection \<open>C3: a validation failure is a protocol error\<close>

text \<open>
  Claim C3 speaks of every call whose arguments fail some rule of the schema. The handler
  enforces the required string and the number rules only: \<open>inpaint\<close> with the mask shape
  \<open>triangle\<close> fails the enumeration rule of the schema, and the call is not aborted but
  spawned. And a call that carries no arguments object, which supplies no required field,
  is answered with an ordinary error response instead of a protocol error.
\<close>

theorem unenforced_rule_not_aborted:
  "(''mask_shape'', OptionalEnum mask_shape_enum, ''--mask-shape'') \<in> set (schema ''inpaint'')
   \<and> outside_enumeration mask_shape_enum (JString ''triangle'')
   \<and> handleCall (example_runtime [CloseEvent (Some 0)]) ''inpaint''
       (Some [''image'' \<mapsto> JString ''in.jpg'', ''prompt'' \<mapsto> JString ''p'',
              ''mask_shape'' \<mapsto> JString ''triangle'']) =
     (Resolved \<lparr>content = [\<lparr>item_type = ''text'', item_text = ''''\<rparr>], isError = False\<rparr>,
      [\<lparr>command = ''python3'',
        argv = [JString ''fluxcli.py'', JString ''inpaint'', JString ''--image'', JString ''in.jpg'',
                JString ''--prompt'', JString ''p'', JString ''--mask-shape'', JString ''triangle''],
        cwd = ''/opt/flux''\<rparr>])
   \<and> handleCall (example_runtime [CloseEvent (Some 0)]) ''generate'' None =
     (Resolved \<lparr>content = [\<lparr>item_type = ''text'',
                            item_text = ''Error: Cannot read properties of undefined (reading ''
                              @ [CHR 0x27] @ ''prompt'' @ [CHR 0x27] @ '')''\<rparr>],
                 isError = True\<rparr>,
      [])"
  by (simp add: eval_defs schema_def outside_enumeration_def supplied_def mask_shape_enum_def)

text \<open>
  Claim C3, amended. For a call that carries an arguments object, the handler runs the
  checks of the schema that it enforces, in declared order: the required string check and
  the number check with its bounds (a value outside an enumeration is no validation
  failure). When some check fails, the call is rejected with the error of the first failing
  check, an McpError with code InvalidParams whose message starts with the name of the
  field, and no process is spawned; the error is not turned into a response.
\<close>

theorem validation_failure_is_protocol_error:
  assumes "first_failure (map (run_rule R args) (schema name)) = Some e"
  shows "handleCall R name (Some args) = (Rejected e, [])
       \<and> (\<exists>f rule flag m. (f, rule, flag) \<in> set (schema name) \<and> e = McpError InvalidParams (f @ m))"
proof -
  from assms have "schema name \<noteq> []" by auto
  then have "name \<in> {''generate'', ''img2img'', ''inpaint'', ''control''}"
    by (rule schema_nonempty_tools)
  then have "thrown (cmdArgs_for R name (Some args)) = Some e"
    using assms by (simp only: cmdArgs_for_first_failure)
  then have inl: "cmdArgs_for R name (Some args) = Inl e"
    by (simp only: thrown_Some)
  from first_failure_Some[OF assms] obtain fr where
    fr: "fr \<in> set (schema name)" "run_rule R args fr = Some e" by blast
  obtain f rule flag where frd: "fr = (f, rule, flag)" by (cases fr)
  from run_rule_Some[of R args f rule flag e] fr frd obtain m where
    m: "e = McpError InvalidParams (f @ m)" by auto
  have "handleCall R name (Some args) = (Rejected e, [])"
    by (simp add: handleCall_def inl catch_block_def m)
  with fr frd m show ?thesis by blast
qed

text \<open>The claim at work: width and height are both invalid, and the failure of width, the earlier field, is the one reported.\<close>

theorem validation_failure_is_protocol_error_witness:
  "first_failure (map (run_rule (example_runtime [CloseEvent (Some 0)])
       [''prompt'' \<mapsto> JString ''x'', ''width'' \<mapsto> JNumber (Finite 100), ''height'' \<mapsto> JString ''tall''])
       (schema ''generate'')) = Some (McpError InvalidParams ''width must be at least 256'')
   \<and> handleCall (example_runtime [CloseEvent (Some 0)]) ''generate''
       (Some [''prompt'' \<mapsto> JString ''x'', ''width'' \<mapsto> JNumber (Finite 100), ''height'' \<mapsto> JString ''tall'']) =
       (Rejected (McpError InvalidParams ''width must be at least 256''), [])"
proof -
  have h: "first_failure (map (run_rule (example_runtime [CloseEvent (Some 0)])
       [''prompt'' \<mapsto> JString ''x'', ''width'' \<mapsto> JNumber (Finite 100), ''height'' \<mapsto> JString ''tall''])
       (schema ''generate'')) = Some (McpError InvalidParams ''width must be at least 256'')"
    by (simp add: schema_def run_rule_def eval_defs)
  from validation_failure_is_protocol_error[OF h] h show ?thesis by simp
qed

subsection \<open>C4: an unknown operation is a protocol error\<close>

text \<open>
  Claim C4. For every tool name other than \<open>generate\<close>, \<open>img2img\<close>, \<open>inpaint\<close> and
  \<open>control\<close>, whatever the arguments, the call is rejected with an McpError of code
  MethodNotFound, no response is returned and no process is spawned.
\<close>

theorem unknown_tool_rejected:
  "name \<notin> {''generate'', ''img2img'', ''inpaint'', ''control''} \<Longrightarrow>
   handleCall R name arguments = (Rejected (McpError MethodNotFound (''Unknown tool: '' @ name)), [])"
  by (simp add: handleCall_def cmdArgs_for_def catch_block_def)

text \<open>The claim at work: the tool \<open>bogus\<close> with an empty arguments object.\<close>

theorem unknown_tool_rejected_witness:
  "''bogus'' \<notin> {''generate'', ''img2img'', ''inpaint'', ''control''}
   \<and> handleCall (example_runtime []) ''bogus'' (Some Map.empty) =
       (Rejected (McpError MethodNotFound ''Unknown tool: bogus''), [])"
  using unknown_tool_rejected [of "''bogus''" "example_runtime []" "Some Map.empty"]
  by simp

subsection \<open>C5: enumeration fields\<close>

text \<open>
  Claim C5 says that a value outside the enumeration of a field fails validation. The
  handler has no enumeration check: \<open>generate\<close> with the model \<open>bogus\<close>, which is not in
  the catalogue's enumeration, passes validation, and the process is spawned with
  \<open>--model bogus\<close>.
\<close>

theorem bogus_model_accepted:
  "''bogus'' \<notin> set model_enum
   \<and> handleCall (example_runtime [CloseEvent (Some 0)]) ''generate''
       (Some [''prompt'' \<mapsto> JString ''x'', ''model'' \<mapsto> JString ''bogus'']) =
     (Resolved \<lparr>content = [\<lparr>item_type = ''text'', item_text = ''''\<rparr>], isError = False\<rparr>,
      [\<lparr>command = ''python3'',
        argv = [JString ''fluxcli.py'', JString ''generate'', JString ''--prompt'', JString ''x'',
                JString ''--model'', JString ''bogus''],
        cwd = ''/opt/flux''\<rparr>])"
  by (simp add: eval_defs model_enum_def)

text \<open>
  Claim C5, amended. No field is checked against its enumeration. For the model and
  aspect ratio of \<open>generate\<close> and the mask shape and position of \<open>inpaint\<close>, validation
  throws the same error, or none, whatever value the field holds. The type of \<open>control\<close> is
  checked as a required string only: every string whose trimmed form is non-empty is
  treated as \<open>canny\<close> is. A value such as \<open>bogus\<close> is forwarded after its flag, and an unset
  field gives no flag.
\<close>

theorem enum_fields_not_validated:
  "thrown (cmdArgs_for R ''generate'' (Some (args(''model'' \<mapsto> v)))) = thrown (cmdArgs_for R ''generate'' (Some args))
   \<and> thrown (cmdArgs_for R ''generate'' (Some (args(''aspect_ratio'' \<mapsto> v)))) = thrown (cmdArgs_for R ''generate'' (Some args))
   \<and> thrown (cmdArgs_for R ''inpaint'' (Some (args(''mask_shape'' \<mapsto> v)))) = thrown (cmdArgs_for R ''inpaint'' (Some args))
   \<and> thrown (cmdArgs_for R ''inpaint'' (Some (args(''position'' \<mapsto> v)))) = thrown (cmdArgs_for R ''inpaint'' (Some args))
   \<and> (trim s \<noteq> [] \<longrightarrow>
        thrown (cmdArgs_for R ''control'' (Some (args(''type'' \<mapsto> JString s)))) =
        thrown (cmdArgs_for R ''control'' (Some (args(''type'' \<mapsto> JString ''canny'')))))
   \<and> cmdArgs_for R ''generate'' (Some [''prompt'' \<mapsto> JString ''x'', ''model'' \<mapsto> JString ''bogus'']) =
        Inr [JString ''generate'', JString ''--prompt'', JString ''x'', JString ''--model'', JString ''bogus'']
   \<and> cmdArgs_for R ''generate'' (Some [''prompt'' \<mapsto> JString ''x'']) =
        Inr [JString ''generate'', JString ''--prompt'', JString ''x'']"
proof -
  have a: "thrown (cmdArgs_for R ''generate'' (Some (args(''model'' \<mapsto> v)))) = thrown (cmdArgs_for R ''generate'' (Some args))"
    "thrown (cmdArgs_for R ''generate'' (Some (args(''aspect_ratio'' \<mapsto> v)))) = thrown (cmdArgs_for R ''generate'' (Some args))"
    "thrown (cmdArgs_for R ''inpaint'' (Some (args(''mask_shape'' \<mapsto> v)))) = thrown (cmdArgs_for R ''inpaint'' (Some args))"
    "thrown (cmdArgs_for R ''inpaint'' (Some (args(''position'' \<mapsto> v)))) = thrown (cmdArgs_for R ''inpaint'' (Some args))"
    by (rule enum_field_ignored; simp add: schema_def)+
  have b: "trim s \<noteq> [] \<longrightarrow>
        thrown (cmdArgs_for R ''control'' (Some (args(''type'' \<mapsto> JString s)))) =
        thrown (cmdArgs_for R ''control'' (Some (args(''type'' \<mapsto> JString ''canny''))))"
  proof -
    have t: "trim ''canny'' \<noteq> []"
      by (simp add: trim_def is_space_def)
    show ?thesis
      using t by (simp add: cmdArgs_for_first_failure schema_def run_rule_def field_def validateRequiredString_def)
  qed
  have c: "cmdArgs_for R ''generate'' (Some [''prompt'' \<mapsto> JString ''x'', ''model'' \<mapsto> JString ''bogus'']) =
        Inr [JString ''generate'', JString ''--prompt'', JString ''x'', JString ''--model'', JString ''bogus'']"
    "cmdArgs_for R ''generate'' (Some [''prompt'' \<mapsto> JString ''x'']) =
        Inr [JString ''generate'', JString ''--prompt'', JString ''x'']"
    by (simp_all add: eval_defs)
  show ?thesis
    by (intro conjI) (rule a(1), rule a(2), rule a(3), rule a(4), rule b, rule c(1), rule c(2))
qed

text \<open>The claim at work: \<open>control\<close> with the type \<open>sketch\<close>, outside the enumeration, passes validation as \<open>canny\<close> does.\<close>

theorem enum_fields_not_validated_witness:
  "trim ''sketch'' \<noteq> []
   \<and> thrown (cmdArgs_for (example_runtime []) ''control''
        (Some ([''image'' \<mapsto> JString ''c.jpg'', ''prompt'' \<mapsto> JString ''p''](''type'' \<mapsto> JString ''sketch'')))) = None
   \<and> thrown (cmdArgs_for (example_runtime []) ''control''
        (Some ([''image'' \<mapsto> JString ''c.jpg'', ''prompt'' \<mapsto> JString ''p''](''type'' \<mapsto> JString ''canny'')))) = None
   \<and> ''sketch'' \<notin> set control_type_enum"
  using enum_fields_not_validated [of "example_runtime []" "[''image'' \<mapsto> JString ''c.jpg'', ''prompt'' \<mapsto> JString ''p'']" JNull "''sketch''"]
  by (simp add: eval_defs thrown_def control_type_enum_def)

subsection \<open>C6: numbers within inclusive bounds\<close>

text \<open>
  Claim C6. For every field name and bounds, the number validator returns
  \<^verbatim>\<open>undefined\<close> for \<^verbatim>\<open>undefined\<close> and \<^verbatim>\<open>null\<close>, returns the number itself for
  every number from the lower bound to the upper bound, both included, and rejects every
  number below the lower or above the upper bound with InvalidParams. So 0 is returned as 0
  with bounds 0 to 100; 256 and 2048 pass and 255 and 2049 fail with bounds 256 to 2048; 0
  and 1 pass and -0.0001 and 1.0001 fail with bounds 0 to 1 (every value below 0 and every
  value above 1 fails, so the doubles nearest to these two decimals do).
\<close>

theorem validateNumber_inclusive_bounds:
  "validateNumber sd JUndefined f mn mx = Inr None
   \<and> validateNumber sd JNull f mn mx = Inr None
   \<and> (lo \<le> x \<and> x \<le> hi \<longrightarrow>
        validateNumber sd (JNumber (Finite x)) f (Some (Finite lo)) (Some (Finite hi)) = Inr (Some (Finite x)))
   \<and> (x < lo \<longrightarrow>
        validateNumber sd (JNumber (Finite x)) f (Some (Finite lo)) (Some (Finite hi)) =
          Inl (McpError InvalidParams (f @ '' must be at least '' @ number_toString sd (Finite lo))))
   \<and> (lo \<le> x \<and> hi < x \<longrightarrow>
        validateNumber sd (JNumber (Finite x)) f (Some (Finite lo)) (Some (Finite hi)) =
          Inl (McpError InvalidParams (f @ '' must be at most '' @ number_toString sd (Finite hi))))
   \<and> validateNumber sd (JNumber (Finite 0)) f (Some (Finite 0)) (Some (Finite 100)) = Inr (Some (Finite 0))
   \<and> validateNumber sd (JNumber (Finite 256)) f (Some (Finite 256)) (Some (Finite 2048)) = Inr (Some (Finite 256))
   \<and> validateNumber sd (JNumber (Finite 2048)) f (Some (Finite 256)) (Some (Finite 2048)) = Inr (Some (Finite 2048))
   \<and> validateNumber sd (JNumber (Finite 255)) f (Some (Finite 256)) (Some (Finite 2048)) =
        Inl (McpError InvalidParams (f @ '' must be at least 256''))
   \<and> validateNumber sd (JNumber (Finite 2049)) f (Some (Finite 256)) (Some (Finite 2048)) =
        Inl (McpError InvalidParams (f @ '' must be at most 2048''))
   \<and> validateNumber sd (JNumber (Finite 0)) f (Some (Finite 0)) (Some (Finite 1)) = Inr (Some (Finite 0))
   \<and> validateNumber sd (JNumber (Finite 1)) f (Some (Finite 0)) (Some (Finite 1)) = Inr (Some (Finite 1))
   \<and> validateNumber sd (JNumber (Finite (- (1 / 10000)))) f (Some (Finite 0)) (Some (Finite 1)) =
        Inl (McpError InvalidParams (f @ '' must be at least 0''))
   \<and> validateNumber sd (JNumber (Finite (10001 / 10000))) f (Some (Finite 0)) (Some (Finite 1)) =
        Inl (McpError InvalidParams (f @ '' must be at most 1''))"
  by (simp add: validateNumber_def isNaN_def number_toString_def string_of_int_def string_of_nat.simps)

text \<open>The claim at work on a width: 300 passes, 100 and 4096 fail.\<close>

theorem validateNumber_inclusive_bounds_witness:
  "(256::rat) \<le> 300 \<and> (300::rat) \<le> 2048
   \<and> validateNumber no_rendering (JNumber (Finite 300)) ''width'' (Some (Finite 256)) (Some (Finite 2048)) =
       Inr (Some (Finite 300))
   \<and> (100::rat) < 256
   \<and> validateNumber no_rendering (JNumber (Finite 100)) ''width'' (Some (Finite 256)) (Some (Finite 2048)) =
       Inl (McpError InvalidParams ''width must be at least 256'')
   \<and> (2048::rat) < 4096
   \<and> validateNumber no_rendering (JNumber (Finite 4096)) ''width'' (Some (Finite 256)) (Some (Finite 2048)) =
       Inl (McpError InvalidParams ''width must be at most 2048'')"
  using validateNumber_inclusive_bounds [of no_rendering "''width''" None None 256 300 2048]
    validateNumber_inclusive_bounds [of no_rendering "''width''" None None 256 100 2048]
    validateNumber_inclusive_bounds [of no_rendering "''width''" None None 256 4096 2048]
  by (simp add: number_toString_def string_of_int_def string_of_nat.simps)

subsection \<open>C7: required strings\<close>

text \<open>
  Claim C7. The required string validator returns a string exactly when the value is a
  string whose trimmed form is non-empty, and then it returns that string; for every other
  value it throws an McpError with code InvalidParams. It throws for the string of three
  spaces and for \<^verbatim>\<open>null\<close>.
\<close>

theorem validateRequiredString_accepts_iff:
  "(validateRequiredString v f = Inr s \<longleftrightarrow> v = JString s \<and> trim s \<noteq> [])
   \<and> (\<not> (\<exists>t. v = JString t \<and> trim t \<noteq> []) \<longrightarrow>
        validateRequiredString v f =
          Inl (McpError InvalidParams (f @ '' is required and must be a non-empty string'')))
   \<and> validateRequiredString (JString ''   '') f =
        Inl (McpError InvalidParams (f @ '' is required and must be a non-empty string''))
   \<and> validateRequiredString JNull f =
        Inl (McpError InvalidParams (f @ '' is required and must be a non-empty string''))"
  by (auto simp: validateRequiredString_def trim_def is_space_def split: jsval.splits)

text \<open>The claim at work: a valid string, a number, and a string of spaces.\<close>

theorem validateRequiredString_accepts_iff_witness:
  "validateRequiredString (JString ''valid'') ''test'' = Inr ''valid''
   \<and> validateRequiredString (JNumber (Finite 123)) ''test'' =
        Inl (McpError InvalidParams ''test is required and must be a non-empty string'')
   \<and> validateRequiredString (JString ''   '') ''test'' =
        Inl (McpError InvalidParams ''test is required and must be a non-empty string'')"
  using validateRequiredString_accepts_iff [of "JString ''valid''" "''test''" "''valid''"]
    validateRequiredString_accepts_iff [of "JNumber (Finite 123)" "''test''"]
  by (simp add: trim_def is_space_def)

subsection \<open>C8: values that are not numbers\<close>

text \<open>
  Claim C8 says that every present value that is not a finite number fails. The validator
  tests \<^verbatim>\<open>typeof value !== 'number' || isNaN(value)\<close>, which an infinity passes: with no
  bounds supplied, \<^verbatim>\<open>Infinity\<close> is returned.
\<close>

theorem validateNumber_accepts_infinity:
  "validateNumber no_rendering (JNumber PosInf) ''guidance'' None None = Inr (Some PosInf)"
  by (simp add: validateNumber_def isNaN_def)

text \<open>
  Claim C8, amended. Every present value that is not a number, or is NaN, fails with
  InvalidParams and the message that the field must be a valid number, also when no bounds
  are supplied. An infinity is accepted as a number and fails only against a bound that is
  supplied: positive infinity is returned when there is no upper bound and fails against
  a finite upper bound, and likewise negative infinity and the lower bound.
\<close>

theorem validateNumber_not_a_number:
  "(supplied v \<and> (\<forall>n. v = JNumber n \<longrightarrow> n = NaN) \<longrightarrow>
      validateNumber sd v f mn mx = Inl (McpError InvalidParams (f @ '' must be a valid number'')))
   \<and> validateNumber sd (JNumber NaN) f None None =
        Inl (McpError InvalidParams (f @ '' must be a valid number''))
   \<and> validateNumber sd (JNumber PosInf) f mn None = Inr (Some PosInf)
   \<and> validateNumber sd (JNumber NegInf) f None mx = Inr (Some NegInf)
   \<and> validateNumber sd (JNumber PosInf) f None (Some (Finite hi)) =
        Inl (McpError InvalidParams (f @ '' must be at most '' @ number_toString sd (Finite hi)))
   \<and> validateNumber sd (JNumber NegInf) f (Some (Finite lo)) mx =
        Inl (McpError InvalidParams (f @ '' must be at least '' @ number_toString sd (Finite lo)))"
proof -
  have a: "supplied v \<and> (\<forall>n. v = JNumber n \<longrightarrow> n = NaN) \<longrightarrow>
      validateNumber sd v f mn mx = Inl (McpError InvalidParams (f @ '' must be a valid number''))"
    by (cases v) (auto simp: validateNumber_def isNaN_def supplied_def)
  have b: "validateNumber sd (JNumber PosInf) f mn None = Inr (Some PosInf)"
    "validateNumber sd (JNumber NegInf) f None mx = Inr (Some NegInf)"
    by (simp_all add: validateNumber_def isNaN_def num_less_PosInf_left num_less_NegInf_right)
  show ?thesis
    using a b by (simp add: validateNumber_def isNaN_def)
qed

text \<open>The claim at work: the string \<open>100\<close> and NaN, with no bounds.\<close>

theorem validateNumber_not_a_number_witness:
  "supplied (JString ''100'')
   \<and> validateNumber no_rendering (JString ''100'') ''test'' None None =
       Inl (McpError InvalidParams ''test must be a valid number'')
   \<and> supplied (JNumber NaN)
   \<and> validateNumber no_rendering (JNumber NaN) ''test'' None None =
       Inl (McpError InvalidParams ''test must be a valid number'')"
  using validateNumber_not_a_number [of "JString ''100''" no_rendering "''test''" None None]
    validateNumber_not_a_number [of "JNumber NaN" no_rendering "''test''" None None]
  by (simp add: supplied_def)

subsection \<open>C9: the executor refuses an empty argument vector\<close>

text \<open>
  Claim C9. Called with a missing or an empty argument vector, the executor rejects with
  the error \<open>No command arguments provided\<close> and starts nothing. Called with a non-empty
  vector, it never fails with that description, whatever \<^verbatim>\<open>spawn\<close> and the process do:
  a process that cannot be started, as the \<^verbatim>\<open>'error'\<close> event reports, gives
  \<open>Failed to spawn Python process\<close> followed by the reason; an error thrown by \<^verbatim>\<open>spawn\<close>
  itself is passed on as it is, with nothing started; and when \<^verbatim>\<open>spawn\<close> returns a
  process, that one process is started.
\<close>

theorem runPythonCommand_empty_args:
  assumes "environment_ok R"
  shows "runPythonCommand R None = (Rejected (Error ''No command arguments provided''), [])
   \<and> runPythonCommand R (Some []) = (Rejected (Error ''No command arguments provided''), [])
   \<and> (cmd \<noteq> [] \<longrightarrow>
        fst (runPythonCommand R (Some cmd)) \<noteq> Rejected (Error ''No command arguments provided'')
        \<and> fst (runPythonCommand R (Some cmd)) \<noteq> Rejected (TypeError ''No command arguments provided''))
   \<and> (cmd \<noteq> [] \<and> spawn R (spawn_of R cmd) = Inr (pre @ ErrorEvent m # post) \<and> list_all is_data pre \<longrightarrow>
        runPythonCommand R (Some cmd) =
          (Rejected (Error (''Failed to spawn Python process: '' @ m)), [spawn_of R cmd]))
   \<and> (cmd \<noteq> [] \<and> spawn R (spawn_of R cmd) = Inl e \<longrightarrow>
        runPythonCommand R (Some cmd) = (Rejected e, []))
   \<and> (cmd \<noteq> [] \<and> spawn R (spawn_of R cmd) = Inr evs \<longrightarrow>
        snd (runPythonCommand R (Some cmd)) = [spawn_of R cmd])"
proof -
  have a: "runPythonCommand R None = (Rejected (Error ''No command arguments provided''), [])"
    "runPythonCommand R (Some []) = (Rejected (Error ''No command arguments provided''), [])"
    by (simp_all add: runPythonCommand_def)
  have b: "cmd \<noteq> [] \<longrightarrow>
        fst (runPythonCommand R (Some cmd)) \<noteq> Rejected (Error ''No command arguments provided'')
        \<and> fst (runPythonCommand R (Some cmd)) \<noteq> Rejected (TypeError ''No command arguments provided'')"
  proof (cases "spawn R (spawn_of R cmd)")
    case (Inl e)
    with spawn_not_contract[of R "spawn_of R cmd"] show ?thesis
      by (auto simp: runPythonCommand_spawns)
  next
    case (Inr evs)
    have "listen evs out err \<noteq> Rejected (TypeError t)" for out err t
      by (induction evs out err rule: listen.induct) simp_all
    with Inr listen_not_contract[of evs "[]" "[]"] show ?thesis
      by (simp add: runPythonCommand_spawns)
  qed
  have c: "cmd \<noteq> [] \<and> spawn R (spawn_of R cmd) = Inr (pre @ ErrorEvent m # post) \<and> list_all is_data pre \<longrightarrow>
        runPythonCommand R (Some cmd) =
          (Rejected (Error (''Failed to spawn Python process: '' @ m)), [spawn_of R cmd])"
    by (simp add: runPythonCommand_spawns listen_data)
  have d: "cmd \<noteq> [] \<and> spawn R (spawn_of R cmd) = Inl e \<longrightarrow>
        runPythonCommand R (Some cmd) = (Rejected e, [])"
    "cmd \<noteq> [] \<and> spawn R (spawn_of R cmd) = Inr evs \<longrightarrow>
        snd (runPythonCommand R (Some cmd)) = [spawn_of R cmd]"
    by (simp_all add: runPythonCommand_spawns)
  show ?thesis
    by (intro conjI) (rule a(1), rule a(2), rule b, rule c, rule d(1), rule d(2))
qed

text \<open>
  The claim at work: a child that cannot be started, a vector with a NUL that
  \<^verbatim>\<open>spawn\<close> refuses, and the empty vector.
\<close>

theorem runPythonCommand_empty_args_witness:
  "environment_ok (example_runtime [ErrorEvent ''spawn python3 ENOENT''])
   \<and> [JString ''generate''] \<noteq> []
   \<and> spawn (example_runtime [ErrorEvent ''spawn python3 ENOENT''])
        (spawn_of (example_runtime [ErrorEvent ''spawn python3 ENOENT'']) [JString ''generate''])
       = Inr ([] @ ErrorEvent ''spawn python3 ENOENT'' # [])
   \<and> list_all is_data []
   \<and> runPythonCommand (example_runtime [ErrorEvent ''spawn python3 ENOENT'']) (Some [JString ''generate'']) =
       (Rejected (Error ''Failed to spawn Python process: spawn python3 ENOENT''),
        [\<lparr>command = ''python3'', argv = [JString ''fluxcli.py'', JString ''generate''], cwd = ''/opt/flux''\<rparr>])
   \<and> [JString [CHR ''a'', CHR 0x00, CHR ''b'']] \<noteq> []
   \<and> runPythonCommand (example_runtime [ErrorEvent ''spawn python3 ENOENT''])
        (Some [JString [CHR ''a'', CHR 0x00, CHR ''b'']]) =
       (Rejected (TypeError (''The argument '' @ [CHR 0x27] @ ''args[1]'' @ [CHR 0x27]
                   @ '' must be a string without null bytes. Received ''
                   @ [CHR 0x27, CHR ''a'', CHR 0x5C] @ ''x00b'' @ [CHR 0x27])),
        [])
   \<and> runPythonCommand (example_runtime [ErrorEvent ''spawn python3 ENOENT'']) (Some []) =
       (Rejected (Error ''No command arguments provided''), [])"
proof -
  let ?R = "example_runtime [ErrorEvent ''spawn python3 ENOENT'']"
  let ?nul = "[JString [CHR ''a'', CHR 0x00, CHR ''b'']]"
  let ?te = "TypeError (''The argument '' @ [CHR 0x27] @ ''args[1]'' @ [CHR 0x27]
                   @ '' must be a string without null bytes. Received ''
                   @ [CHR 0x27, CHR ''a'', CHR 0x5C] @ ''x00b'' @ [CHR 0x27])"
  have e: "environment_ok ?R"
    by (simp add: environment_ok_def example_runtime_def)
  have s: "spawn ?R (spawn_of ?R [JString ''generate'']) = Inr ([] @ ErrorEvent ''spawn python3 ENOENT'' # [])"
    by (simp add: eval_defs spawn_of_def)
  have sn: "spawn ?R (spawn_of ?R ?nul) = Inl ?te"
    by (simp add: eval_defs spawn_of_def)
  have sp: "spawn_of ?R [JString ''generate''] =
      \<lparr>command = ''python3'', argv = [JString ''fluxcli.py'', JString ''generate''], cwd = ''/opt/flux''\<rparr>"
    by (simp add: spawn_of_def pythonPath_def example_runtime_def)
  from runPythonCommand_empty_args [OF e, of "[JString ''generate'']" "[]" "''spawn python3 ENOENT''" "[]"] s
  have r1: "runPythonCommand ?R (Some [JString ''generate'']) =
       (Rejected (Error ''Failed to spawn Python process: spawn python3 ENOENT''),
        [spawn_of ?R [JString ''generate'']])"
    by simp
  from runPythonCommand_empty_args [OF e, of ?nul _ _ _ ?te] sn
  have r2: "runPythonCommand ?R (Some ?nul) = (Rejected ?te, [])"
    by simp
  from runPythonCommand_empty_args [OF e]
  have r3: "runPythonCommand ?R (Some []) = (Rejected (Error ''No command arguments provided''), [])"
    by blast
  show ?thesis
    by (intro conjI) (rule e, simp, rule s, simp, rule r1[unfolded sp], simp, rule r2, rule r3)
qed

subsection \<open>C10: required strings are forwarded untrimmed\<close>



end
